theory Spec2Isabelle
  imports Complex_Main
begin

section \<open>Values exchanged with the qortex service\<close>

text \<open>
  The adapter of \<^verbatim>\<open>vectorstore.ts\<close> forwards every operation to a named
  remote tool and reshapes the decoded JSON result. A JavaScript \<^verbatim>\<open>number\<close>
  is only passed through (no arithmetic is done on it), so it is a \<^typ>\<open>real\<close>.
  An open mapping (\<^verbatim>\<open>Record<string, unknown>\<close>) is a partial function from keys
  to JSON values; a missing key is \<^verbatim>\<open>undefined\<close>.
\<close>

type_synonym number = real

datatype json =
    JNull
  | JBool bool
  | JNum number
  | JStr string
  | JArr "json list"
  | JObj "string \<Rightarrow> json option"

type_synonym jsobject = "string \<Rightarrow> json option"

text \<open>JavaScript truthiness of a possibly missing value.\<close>

fun truthy :: "json option \<Rightarrow> bool" where
  "truthy None = False"
| "truthy (Some JNull) = False"
| "truthy (Some (JBool b)) = b"
| "truthy (Some (JNum n)) = (n \<noteq> 0)"
| "truthy (Some (JStr s)) = (s \<noteq> [])"
| "truthy (Some (JArr xs)) = True"
| "truthy (Some (JObj m)) = True"

text \<open>Truthiness of an optional string: defined and not empty.\<close>

fun truthy_string :: "string option \<Rightarrow> bool" where
  "truthy_string None = False"
| "truthy_string (Some s) = (s \<noteq> [])"

text \<open>The operator \<^verbatim>\<open>??\<close>: the default replaces \<^verbatim>\<open>undefined\<close> and \<^verbatim>\<open>null\<close> only.\<close>

fun nullish :: "json option \<Rightarrow> json \<Rightarrow> json" where
  "nullish None d = d"
| "nullish (Some JNull) d = d"
| "nullish (Some v) d = v"

text \<open>
  The same operator on an optional field or argument, where \<open>None\<close> stands for
  both \<^verbatim>\<open>undefined\<close> and \<^verbatim>\<open>null\<close>; it also gives a parameter its default.
\<close>

fun or_else :: "'a option \<Rightarrow> 'a \<Rightarrow> 'a" where
  "or_else None d = d"
| "or_else (Some v) d = v"

text \<open>
  A document as the plugin interface has it: content text, metadata mapping and
  an optional identifier.
\<close>

record document =
  pageContent :: string
  metadata :: jsobject
  doc_id :: "string option"

text \<open>
  What a method throws: \<^verbatim>\<open>new Error(message)\<close> of the adapter, or the
  \<^verbatim>\<open>TypeError\<close> of the run time when a value has no callable
  \<^verbatim>\<open>toString\<close>.
\<close>

datatype error = Error string | TypeError

subsection \<open>The Document constructor\<close>

text \<open>
  The adapter builds its results with \<^verbatim>\<open>new Document({pageContent, metadata, id})\<close>.
  The constructor of the plugin library stores
  \<^verbatim>\<open>fields.pageContent !== undefined ? fields.pageContent.toString() : ""\<close>,
  so a content value that is not a string (the cast \<^verbatim>\<open>text as string\<close> of the
  vector search checks nothing at run time) is stored as its string rendering.

  \<^verbatim>\<open>Number.prototype.toString\<close> writes an integer below \<open>10^21\<close> in absolute
  value as its decimal digits. Every other number (a fraction, or a magnitude it
  writes with an exponent) is written as the shortest decimal that reads back as
  the same double: that rendering is the parameter \<open>fmt\<close>.
\<close>

fun digits :: "nat \<Rightarrow> string" where
  "digits n =
     (if n < 10 then [''0123456789'' ! n]
      else digits (n div 10) @ [''0123456789'' ! (n mod 10)])"

definition Number_toString :: "(number \<Rightarrow> string) \<Rightarrow> number \<Rightarrow> string" where
  "Number_toString fmt n =
     (if n \<in> \<int> \<and> \<bar>n\<bar> < 10 ^ 21
      then (if n < 0 then ''-'' @ digits (nat \<lfloor>- n\<rfloor>) else digits (nat \<lfloor>n\<rfloor>))
      else fmt n)"

text \<open>
  The method call \<^verbatim>\<open>v.toString()\<close> on a decoded JSON value. On \<^verbatim>\<open>null\<close> it
  throws. An array joins its elements with commas, an element that is
  \<^verbatim>\<open>null\<close> giving the empty string. An object gives
  \<^verbatim>\<open>[object Object]\<close>, unless it has a key \<^verbatim>\<open>toString\<close> of its own: that
  value is no function, and the call (or the conversion of an array element)
  throws a \<^verbatim>\<open>TypeError\<close>.
\<close>

fun toString :: "(number \<Rightarrow> string) \<Rightarrow> json \<Rightarrow> error + string"
  and join :: "(number \<Rightarrow> string) \<Rightarrow> json list \<Rightarrow> error + string" where
  "toString fmt JNull = Inl TypeError"
| "toString fmt (JBool b) = Inr (if b then ''true'' else ''false'')"
| "toString fmt (JNum n) = Inr (Number_toString fmt n)"
| "toString fmt (JStr s) = Inr s"
| "toString fmt (JArr xs) = join fmt xs"
| "toString fmt (JObj m) =
     (if m ''toString'' = None then Inr ''[object Object]'' else Inl TypeError)"
| "join fmt [] = Inr ''''"
| "join fmt (x # xs) =
     (case (if x = JNull then Inr '''' else toString fmt x) of
        Inl e \<Rightarrow> Inl e
      | Inr s \<Rightarrow>
          (if xs = [] then Inr s
           else (case join fmt xs of
                   Inl e \<Rightarrow> Inl e
                 | Inr rest \<Rightarrow> Inr (s @ '','' @ rest))))"

definition Document ::
  "(number \<Rightarrow> string) \<Rightarrow> json option \<Rightarrow> jsobject \<Rightarrow> string option \<Rightarrow> error + document" where
  "Document fmt content meta ident =
     (case (case content of None \<Rightarrow> Inr '''' | Some v \<Rightarrow> toString fmt v) of
        Inl e \<Rightarrow> Inl e
      | Inr text \<Rightarrow> Inr \<lparr>pageContent = text, metadata = meta, doc_id = ident\<rparr>)"

text \<open>\<^verbatim>\<open>xs.map(f)\<close> where \<open>f\<close> may throw: the first throw ends the call.\<close>

fun map_throwing :: "('a \<Rightarrow> error + 'b) \<Rightarrow> 'a list \<Rightarrow> error + 'b list" where
  "map_throwing f [] = Inr []"
| "map_throwing f (x # xs) =
     (case f x of
        Inl e \<Rightarrow> Inl e
      | Inr y \<Rightarrow> (case map_throwing f xs of Inl e \<Rightarrow> Inl e | Inr ys \<Rightarrow> Inr (y # ys)))"

subsection \<open>Payloads and results of the six remote tools\<close>

record upsert_args =
  ua_index_name :: string
  ua_vectors :: "number list list"
  ua_metadata :: "jsobject list"
  ua_ids :: "string list option"

record upsert_result =
  ur_ids :: "string list option"
  ur_error :: "string option"

record vquery_args =
  va_index_name :: string
  va_query_vector :: "number list"
  va_top_k :: number
  va_filter :: "jsobject option"
  va_include_vector :: bool

record vquery_item =
  vi_id :: string
  vi_score :: number
  vi_metadata :: "jsobject option"

record vquery_result =
  vr_results :: "vquery_item list option"
  vr_error :: "string option"

record query_args =
  qa_context :: string
  qa_domains :: json
  qa_top_k :: number
  qa_min_confidence :: number
  qa_mode :: string

text \<open>
  Modelled from the spec: the declarations of \<^verbatim>\<open>types.ts\<close> are not among the
  sources. The records below follow section 3 of the specification (query result
  item, rule, graph node, graph edge) and the fields the adapter and its tests
  read. A field the adapter guards with \<^verbatim>\<open>?.\<close> or \<^verbatim>\<open>??\<close> is optional.
  \<open>qr_error\<close> is the \<^verbatim>\<open>error\<close> field a decoded response may carry.
\<close>

record QortexQueryItem =
  qi_id :: string
  qi_content :: string
  qi_score :: number
  qi_domain :: string
  qi_node_id :: string
  qi_metadata :: jsobject

record QortexRule =
  r_id :: string
  r_text :: string
  r_domain :: string
  r_category :: string
  r_confidence :: number
  r_relevance :: number
  r_derivation :: string
  r_source_concepts :: "string list option"
  r_metadata :: jsobject

record QortexQueryResult =
  qr_items :: "QortexQueryItem list option"
  qr_query_id :: "string option"
  qr_rules :: "QortexRule list option"
  qr_error :: "string option"

record QortexNode =
  n_id :: string
  n_name :: string
  n_description :: string
  n_domain :: string
  n_confidence :: number
  n_properties :: jsobject

record QortexEdge =
  e_source_id :: string
  e_target_id :: string
  e_relation_type :: string
  e_confidence :: number
  e_properties :: jsobject

text \<open>A field of a decoded response: absent, \<^verbatim>\<open>null\<close>, or holding a value.\<close>

datatype 'a field = Undefined | Null | Defined 'a

record ExploreResult =
  x_node :: "QortexNode field"
  x_edges :: "QortexEdge list option"
  x_neighbors :: "QortexNode list option"
  x_rules :: "QortexRule list option"

record explore_args =
  ea_node_id :: string
  ea_depth :: number

record rules_options =
  ro_domains :: "string list option"
  ro_conceptIds :: "string list option"
  ro_categories :: "string list option"
  ro_includeDerived :: "bool option"
  ro_minConfidence :: "number option"

record rules_args =
  ra_domains :: "string list option"
  ra_concept_ids :: "string list option"
  ra_categories :: "string list option"
  ra_include_derived :: bool
  ra_min_confidence :: number

record RulesResult =
  rr_rules :: "QortexRule list"
  rr_domain_count :: number
  rr_projection :: string

type_synonym FeedbackOutcome = string

record feedback_args =
  fa_query_id :: string
  fa_outcomes :: "string \<Rightarrow> FeedbackOutcome option"
  fa_source :: string

record FeedbackResult =
  fr_status :: string
  fr_query_id :: string
  fr_outcome_count :: number
  fr_source :: string

text \<open>One remote call: the tool named and the payload sent.\<close>

datatype tool_call =
    Call_vector_upsert upsert_args
  | Call_vector_query vquery_args
  | Call_query query_args
  | Call_explore explore_args
  | Call_rules rules_args
  | Call_feedback feedback_args

fun tool_name :: "tool_call \<Rightarrow> string" where
  "tool_name (Call_vector_upsert a) = ''qortex_vector_upsert''"
| "tool_name (Call_vector_query a) = ''qortex_vector_query''"
| "tool_name (Call_query a) = ''qortex_query''"
| "tool_name (Call_explore a) = ''qortex_explore''"
| "tool_name (Call_rules a) = ''qortex_rules''"
| "tool_name (Call_feedback a) = ''qortex_feedback''"

text \<open>
  Modelled from the spec: \<^verbatim>\<open>client.ts\<close> (\<^verbatim>\<open>QortexMcpClient.callTool\<close>) is not
  among the sources. By section 4.1 it invokes a named remote operation with a
  payload mapping and returns its decoded result; here the service is one
  function per tool name, from the payload to the decoded result.
\<close>

record QortexMcpClient =
  qortex_vector_upsert :: "upsert_args \<Rightarrow> upsert_result"
  qortex_vector_query :: "vquery_args \<Rightarrow> vquery_result"
  qortex_query :: "query_args \<Rightarrow> QortexQueryResult"
  qortex_explore :: "explore_args \<Rightarrow> ExploreResult"
  qortex_rules :: "rules_args \<Rightarrow> RulesResult"
  qortex_feedback :: "feedback_args \<Rightarrow> FeedbackResult"

section \<open>The store adapter\<close>

record QortexVectorStoreConfig =
  cfg_indexName :: "string option"
  cfg_domain :: "string option"
  cfg_feedbackSource :: "string option"

text \<open>The fields of a \<^verbatim>\<open>QortexVectorStore\<close> instance.\<close>

record QortexVectorStore =
  indexName :: string
  domain :: string
  feedbackSource :: string
  lastQueryId :: "string option"

definition constructor :: "QortexVectorStoreConfig \<Rightarrow> QortexVectorStore" where
  "constructor config =
     \<lparr>indexName = or_else (cfg_indexName config) ''default'',
      domain = or_else (cfg_domain config) ''default'',
      feedbackSource = or_else (cfg_feedbackSource config) ''langchain'',
      lastQueryId = None\<rparr>"

text \<open>
  What one method call does: the remote calls it issued, in order, the value it
  returned (\<open>Inr\<close>) or the error it threw (\<open>Inl\<close>), and the instance fields
  afterwards.
\<close>

record 'a outcome =
  calls :: "tool_call list"
  returned :: "error + 'a"
  store :: QortexVectorStore

subsection \<open>addVectors, addDocuments\<close>

record add_options =
  ids :: "string list option"

text \<open>
  \<^verbatim>\<open>documents.map((doc) => doc.id).filter(Boolean) as string[]\<close>: the
  identifiers of the documents that have a non-empty one, in document order.
\<close>

definition truthy_ids :: "document list \<Rightarrow> string list" where
  "truthy_ids documents = map the (filter truthy_string (map doc_id documents))"

definition upsert_payload ::
  "QortexVectorStore \<Rightarrow> number list list \<Rightarrow> document list \<Rightarrow> add_options option
    \<Rightarrow> upsert_args" where
  "upsert_payload this vectors documents options =
     (let metadata = map (\<lambda>doc. [''text'' \<mapsto> JStr (pageContent doc)] ++ metadata doc) documents;
          ids = (case Option.bind options ids of
                   Some given \<Rightarrow> given
                 | None \<Rightarrow> truthy_ids documents)
      in \<lparr>ua_index_name = indexName this,
          ua_vectors = vectors,
          ua_metadata = metadata,
          ua_ids = (if length ids > 0 then Some ids else None)\<rparr>)"

definition addVectors ::
  "QortexMcpClient \<Rightarrow> QortexVectorStore \<Rightarrow> number list list \<Rightarrow> document list
    \<Rightarrow> add_options option \<Rightarrow> string list option outcome" where
  "addVectors mcp this vectors documents options =
     (let args = upsert_payload this vectors documents options;
          result = qortex_vector_upsert mcp args
      in \<lparr>calls = [Call_vector_upsert args],
          returned = (if truthy_string (ur_error result)
                      then Inl (Error (the (ur_error result)))
                      else Inr (ur_ids result)),
          store = this\<rparr>)"

definition addDocuments ::
  "(string list \<Rightarrow> number list list) \<Rightarrow> QortexMcpClient \<Rightarrow> QortexVectorStore
    \<Rightarrow> document list \<Rightarrow> add_options option \<Rightarrow> string list option outcome" where
  "addDocuments embedDocuments mcp this documents options =
     (let texts = map pageContent documents;
          vectors = embedDocuments texts
      in addVectors mcp this vectors documents options)"

subsection \<open>similaritySearchVectorWithScore\<close>

definition vquery_payload ::
  "QortexVectorStore \<Rightarrow> number list \<Rightarrow> number \<Rightarrow> jsobject option \<Rightarrow> vquery_args" where
  "vquery_payload this query k flt =
     \<lparr>va_index_name = indexName this,
      va_query_vector = query,
      va_top_k = k,
      va_filter = flt,
      va_include_vector = False\<rparr>"

definition vector_item_to_pair ::
  "(number \<Rightarrow> string) \<Rightarrow> vquery_item \<Rightarrow> error + (document \<times> number)" where
  "vector_item_to_pair fmt item =
     (let md = or_else (vi_metadata item) Map.empty;
          text = md ''text'';
          meta = md |` (- {''text''})
      in case Document fmt (Some (nullish text (JStr '''')))
                (meta(''score'' \<mapsto> JNum (vi_score item))) (Some (vi_id item)) of
           Inl e \<Rightarrow> Inl e
         | Inr doc \<Rightarrow> Inr (doc, vi_score item))"

definition similaritySearchVectorWithScore ::
  "(number \<Rightarrow> string) \<Rightarrow> QortexMcpClient \<Rightarrow> QortexVectorStore \<Rightarrow> number list \<Rightarrow> number
    \<Rightarrow> jsobject option \<Rightarrow> (document \<times> number) list outcome" where
  "similaritySearchVectorWithScore fmt mcp this query k flt =
     (let args = vquery_payload this query k flt;
          result = qortex_vector_query mcp args
      in \<lparr>calls = [Call_vector_query args],
          returned = (if truthy_string (vr_error result)
                      then Inl (Error (the (vr_error result)))
                      else map_throwing (vector_item_to_pair fmt)
                             (or_else (vr_results result) [])),
          store = this\<rparr>)"

subsection \<open>Text-level search\<close>

definition query_payload ::
  "QortexVectorStore \<Rightarrow> string \<Rightarrow> number option \<Rightarrow> jsobject option \<Rightarrow> query_args" where
  "query_payload this query k flt =
     (let domains = (if truthy (Option.bind flt (\<lambda>f. f ''domains''))
                     then the (Option.bind flt (\<lambda>f. f ''domains''))
                     else JArr [JStr (domain this)]);
          minConfidence = (case Option.bind flt (\<lambda>f. f ''min_confidence'') of
                             Some (JNum n) \<Rightarrow> n
                           | _ \<Rightarrow> 0)
      in \<lparr>qa_context = query,
          qa_domains = domains,
          qa_top_k = or_else k 4,
          qa_min_confidence = minConfidence,
          qa_mode = ''auto''\<rparr>)"

text \<open>\<^verbatim>\<open>r.source_concepts?.includes(item.node_id)\<close>\<close>

fun rule_mentions :: "string \<Rightarrow> QortexRule \<Rightarrow> bool" where
  "rule_mentions node (r :: QortexRule) =
     (case r_source_concepts r of None \<Rightarrow> False | Some concepts \<Rightarrow> node \<in> set concepts)"

definition linked_rule :: "QortexRule \<Rightarrow> json" where
  "linked_rule r =
     JObj [''id'' \<mapsto> JStr (r_id r), ''text'' \<mapsto> JStr (r_text r),
           ''relevance'' \<mapsto> JNum (r_relevance r)]"

text \<open>
  The content of a query result item is a string, which the Document constructor
  stores as it is.
\<close>

definition query_item_to_pair ::
  "QortexRule list option \<Rightarrow> QortexQueryItem \<Rightarrow> document \<times> number" where
  "query_item_to_pair rules item =
     (let meta = [''score'' \<mapsto> JNum (qi_score item), ''domain'' \<mapsto> JStr (qi_domain item),
                  ''node_id'' \<mapsto> JStr (qi_node_id item)] ++ qi_metadata item;
          meta = (if length (or_else rules []) > 0
                  then (let linkedRules =
                              map linked_rule (filter (rule_mentions (qi_node_id item)) (the rules))
                        in if length linkedRules > 0
                           then meta(''rules'' \<mapsto> JArr linkedRules)
                           else meta)
                  else meta);
          doc = \<lparr>pageContent = qi_content item, metadata = meta, doc_id = Some (qi_id item)\<rparr>
      in (doc, qi_score item))"

definition similaritySearchWithScore ::
  "QortexMcpClient \<Rightarrow> QortexVectorStore \<Rightarrow> string \<Rightarrow> number option \<Rightarrow> jsobject option
    \<Rightarrow> (document \<times> number) list outcome" where
  "similaritySearchWithScore mcp this query k flt =
     (let args = query_payload this query k flt;
          result = qortex_query mcp args;
          this = this\<lparr>lastQueryId := qr_query_id result\<rparr>
      in \<lparr>calls = [Call_query args],
          returned = Inr (map (query_item_to_pair (qr_rules result)) (or_else (qr_items result) [])),
          store = this\<rparr>)"

definition similaritySearch ::
  "QortexMcpClient \<Rightarrow> QortexVectorStore \<Rightarrow> string \<Rightarrow> number option \<Rightarrow> jsobject option
    \<Rightarrow> document list outcome" where
  "similaritySearch mcp this query k flt =
     (let docsAndScores = similaritySearchWithScore mcp this query (Some (or_else k 4)) flt
      in \<lparr>calls = calls docsAndScores,
          returned = map_sum (\<lambda>e. e) (map fst) (returned docsAndScores),
          store = store docsAndScores\<rparr>)"

subsection \<open>Graph extras: explore, getRules, feedback\<close>

definition explore_payload :: "string \<Rightarrow> number option \<Rightarrow> explore_args" where
  "explore_payload nodeId depth = \<lparr>ea_node_id = nodeId, ea_depth = or_else depth 1\<rparr>"

definition explore ::
  "QortexMcpClient \<Rightarrow> QortexVectorStore \<Rightarrow> string \<Rightarrow> number option
    \<Rightarrow> ExploreResult option outcome" where
  "explore mcp this nodeId depth =
     (let args = explore_payload nodeId depth;
          result = qortex_explore mcp args
      in \<lparr>calls = [Call_explore args],
          returned = (if x_node result = Null then Inr None else Inr (Some result)),
          store = this\<rparr>)"

definition rules_payload :: "rules_options option \<Rightarrow> rules_args" where
  "rules_payload options =
     \<lparr>ra_domains = Option.bind options ro_domains,
      ra_concept_ids = Option.bind options ro_conceptIds,
      ra_categories = Option.bind options ro_categories,
      ra_include_derived = or_else (Option.bind options ro_includeDerived) True,
      ra_min_confidence = or_else (Option.bind options ro_minConfidence) 0\<rparr>"

definition getRules ::
  "QortexMcpClient \<Rightarrow> QortexVectorStore \<Rightarrow> rules_options option \<Rightarrow> RulesResult outcome" where
  "getRules mcp this options =
     (let args = rules_payload options;
          result = qortex_rules mcp args
      in \<lparr>calls = [Call_rules args], returned = Inr result, store = this\<rparr>)"

definition feedback ::
  "QortexMcpClient \<Rightarrow> QortexVectorStore \<Rightarrow> (string \<Rightarrow> FeedbackOutcome option)
    \<Rightarrow> FeedbackResult option outcome" where
  "feedback mcp this outcomes =
     (if \<not> truthy_string (lastQueryId this)
      then \<lparr>calls = [], returned = Inr None, store = this\<rparr>
      else (let args = \<lparr>fa_query_id = the (lastQueryId this),
                        fa_outcomes = outcomes,
                        fa_source = feedbackSource this\<rparr>;
                result = qortex_feedback mcp args
            in \<lparr>calls = [Call_feedback args], returned = Inr (Some result), store = this\<rparr>))"

section \<open>Test doubles\<close>

text \<open>
  A store built as in the unit tests, and services that answer one tool with a
  fixed response (the tests' \<^verbatim>\<open>mockResolvedValue\<close>); \<open>silent\<close> answers every
  tool with an empty response.
\<close>

definition store0 :: QortexVectorStore where
  "store0 = constructor \<lparr>cfg_indexName = Some ''test-index'', cfg_domain = Some ''security'',
                          cfg_feedbackSource = None\<rparr>"

definition silent :: QortexMcpClient where
  "silent =
     \<lparr>qortex_vector_upsert = (\<lambda>a. \<lparr>ur_ids = None, ur_error = None\<rparr>),
      qortex_vector_query = (\<lambda>a. \<lparr>vr_results = None, vr_error = None\<rparr>),
      qortex_query = (\<lambda>a. \<lparr>qr_items = None, qr_query_id = None, qr_rules = None,
                             qr_error = None\<rparr>),
      qortex_explore = (\<lambda>a. \<lparr>x_node = Null, x_edges = None, x_neighbors = None,
                               x_rules = None\<rparr>),
      qortex_rules = (\<lambda>a. \<lparr>rr_rules = [], rr_domain_count = 0, rr_projection = ''rules''\<rparr>),
      qortex_feedback = (\<lambda>a. \<lparr>fr_status = ''recorded'', fr_query_id = fa_query_id a,
                                fr_outcome_count = 0, fr_source = fa_source a\<rparr>)\<rparr>"

definition upsert_answers :: "upsert_result \<Rightarrow> QortexMcpClient" where
  "upsert_answers r = silent\<lparr>qortex_vector_upsert := (\<lambda>a. r)\<rparr>"

definition vector_query_answers :: "vquery_result \<Rightarrow> QortexMcpClient" where
  "vector_query_answers r = silent\<lparr>qortex_vector_query := (\<lambda>a. r)\<rparr>"

definition query_answers :: "QortexQueryResult \<Rightarrow> QortexMcpClient" where
  "query_answers r = silent\<lparr>qortex_query := (\<lambda>a. r)\<rparr>"

definition explore_answers :: "ExploreResult \<Rightarrow> QortexMcpClient" where
  "explore_answers r = silent\<lparr>qortex_explore := (\<lambda>a. r)\<rparr>"

definition plain_doc :: "string \<Rightarrow> document" where
  "plain_doc content = \<lparr>pageContent = content, metadata = Map.empty, doc_id = None\<rparr>"

definition oauth_neighborhood :: ExploreResult where
  "oauth_neighborhood =
     \<lparr>x_node = Defined \<lparr>n_id = ''sec:oauth'', n_name = ''OAuth2'',
                         n_description = ''Auth framework'', n_domain = ''security'',
                         n_confidence = 1, n_properties = Map.empty\<rparr>,
      x_edges = Some [\<lparr>e_source_id = ''sec:oauth'', e_target_id = ''sec:jwt'',
                       e_relation_type = ''REQUIRES'', e_confidence = 0.9,
                       e_properties = Map.empty\<rparr>],
      x_neighbors = Some [\<lparr>n_id = ''sec:jwt'', n_name = ''JWT'',
                           n_description = ''Signed tokens'', n_domain = ''security'',
                           n_confidence = 1, n_properties = Map.empty\<rparr>],
      x_rules = Some []\<rparr>"

definition oauth_item :: QortexQueryItem where
  "oauth_item =
     \<lparr>qi_id = ''i-1'', qi_content = ''OAuth2 framework'', qi_score = 0.94,
      qi_domain = ''security'', qi_node_id = ''sec:oauth'', qi_metadata = Map.empty\<rparr>"

definition jwt_item :: QortexQueryItem where
  "jwt_item =
     \<lparr>qi_id = ''i-2'', qi_content = ''JWT token validation'', qi_score = 0.85,
      qi_domain = ''security'', qi_node_id = ''sec:jwt'', qi_metadata = Map.empty\<rparr>"

definition oauth_rule :: QortexRule where
  "oauth_rule =
     \<lparr>r_id = ''rule:oauth'', r_text = ''Use OAuth2 for API access'', r_domain = ''security'',
      r_category = ''security'', r_confidence = 1, r_relevance = 0.94,
      r_derivation = ''explicit'', r_source_concepts = Some [''sec:oauth''],
      r_metadata = Map.empty\<rparr>"

definition two_items_one_rule :: QortexQueryResult where
  "two_items_one_rule =
     \<lparr>qr_items = Some [oauth_item, jwt_item], qr_query_id = Some ''q-abc'',
      qr_rules = Some [oauth_rule], qr_error = None\<rparr>"

definition three_vector_results :: vquery_result where
  "three_vector_results =
     \<lparr>vr_results = Some [\<lparr>vi_id = ''v1'', vi_score = 0.95,
                          vi_metadata = Some [''text'' \<mapsto> JStr ''OAuth2 auth'',
                                              ''source'' \<mapsto> JStr ''docs'']\<rparr>,
                         \<lparr>vi_id = ''v2'', vi_score = 0.82, vi_metadata = None\<rparr>,
                         \<lparr>vi_id = ''v3'', vi_score = 0.5,
                          vi_metadata = Some [''text'' \<mapsto> JBool False]\<rparr>],
      vr_error = None\<rparr>"

definition number_and_null_text :: vquery_result where
  "number_and_null_text =
     \<lparr>vr_results = Some [\<lparr>vi_id = ''v1'', vi_score = 0.95,
                          vi_metadata = Some [''text'' \<mapsto> JNum 42]\<rparr>,
                         \<lparr>vi_id = ''v2'', vi_score = 0.82,
                          vi_metadata = Some [''text'' \<mapsto> JNull]\<rparr>],
      vr_error = None\<rparr>"

text \<open>
  The tests hold no fraction; the rendering of the other numbers is any function
  then.
\<close>

definition no_fractions :: "number \<Rightarrow> string" where
  "no_fractions n = ''''"


text \<open>What the returned documents hold under the metadata key \<^verbatim>\<open>rules\<close>.\<close>

definition rules_entries ::
  "error + (document \<times> number) list \<Rightarrow> json option list" where
  "rules_entries r =
     (case r of Inl e \<Rightarrow> [] | Inr pairs \<Rightarrow> map (\<lambda>p. metadata (fst p) ''rules'') pairs)"

definition fake_embedDocuments :: "string list \<Rightarrow> number list list" where
  "fake_embedDocuments texts = map (\<lambda>t. [0.1, 0.2, 0.3, 0.4]) texts"

lemmas doubles =
  store0_def constructor_def silent_def upsert_answers_def vector_query_answers_def
  query_answers_def explore_answers_def plain_doc_def oauth_item_def jwt_item_def
  oauth_rule_def oauth_neighborhood_def fake_embedDocuments_def two_items_one_rule_def
  three_vector_results_def number_and_null_text_def

section \<open>Facts about the payloads and the reshaped results\<close>

lemma addVectors_calls:
  "calls (addVectors mcp this vectors documents options)
     = [Call_vector_upsert (upsert_payload this vectors documents options)]"
  by (simp add: addVectors_def Let_def)

lemma addVectors_returns_service_ids:
  "\<not> truthy_string (ur_error (qortex_vector_upsert mcp (upsert_payload this vectors documents options)))
   \<Longrightarrow> returned (addVectors mcp this vectors documents options)
     = Inr (ur_ids (qortex_vector_upsert mcp (upsert_payload this vectors documents options)))"
  by (simp add: addVectors_def Let_def)

lemma upsert_metadata_length:
  "length (ua_metadata (upsert_payload this vectors documents options)) = length documents"
  by (simp add: upsert_payload_def Let_def)

lemma upsert_metadata_nth:
  "i < length documents \<Longrightarrow>
   ua_metadata (upsert_payload this vectors documents options) ! i
     = [''text'' \<mapsto> JStr (pageContent (documents ! i))] ++ metadata (documents ! i)"
  by (simp add: upsert_payload_def Let_def)

lemma upsert_ids_given:
  "given \<noteq> [] \<Longrightarrow>
   ua_ids (upsert_payload this vectors documents (Some \<lparr>ids = Some given\<rparr>)) = Some given"
  by (simp add: upsert_payload_def Let_def)








lemma text_search_returned:
  "returned (similaritySearchWithScore mcp this query k flt)
     = Inr (map (query_item_to_pair (qr_rules (qortex_query mcp (query_payload this query k flt))))
              (or_else (qr_items (qortex_query mcp (query_payload this query k flt))) []))"
  by (simp add: similaritySearchWithScore_def Let_def)

lemma query_item_rules:
  "metadata (fst (query_item_to_pair rules item)) ''rules''
     = (if filter (rule_mentions (qi_node_id item)) (or_else rules []) = []
        then qi_metadata item ''rules''
        else Some (JArr (map linked_rule
               (filter (rule_mentions (qi_node_id item)) (or_else rules [])))))"
  by (cases rules) (auto simp add: query_item_to_pair_def Let_def map_add_def split: option.splits)

lemma query_payload_default_k:
  "query_payload this query (Some (or_else k 4)) flt = query_payload this query k flt"
  by (simp add: query_payload_def)

section \<open>Error-bearing responses\<close>

text \<open>
  C1, as the code has it. When the response to the upsert call or to the vector
  query call carries an error field that is a non-empty string, addVectors and
  similaritySearchVectorWithScore each issue their one remote call and fail by
  throwing an error whose message is that string.
\<close>

theorem vector_paths_throw_service_message:
  "(ur_error (qortex_vector_upsert mcp (upsert_payload this vectors documents options)) = Some msg
      \<and> msg \<noteq> [] \<longrightarrow>
    calls (addVectors mcp this vectors documents options)
      = [Call_vector_upsert (upsert_payload this vectors documents options)]
    \<and> returned (addVectors mcp this vectors documents options) = Inl (Error msg))
   \<and> (vr_error (qortex_vector_query mcp (vquery_payload this query k flt)) = Some msg
      \<and> msg \<noteq> [] \<longrightarrow>
    calls (similaritySearchVectorWithScore fmt mcp this query k flt)
      = [Call_vector_query (vquery_payload this query k flt)]
    \<and> returned (similaritySearchVectorWithScore fmt mcp this query k flt) = Inl (Error msg))"
  by (simp add: addVectors_def similaritySearchVectorWithScore_def Let_def)

text \<open>The two error cases of the unit tests.\<close>

theorem vector_paths_throw_service_message_witness:
  "returned (addVectors (upsert_answers \<lparr>ur_ids = None, ur_error = Some ''Dimension mismatch''\<rparr>)
       store0 [[1, 0]] [plain_doc ''test''] None)
     = Inl (Error ''Dimension mismatch'')
   \<and> returned (similaritySearchVectorWithScore no_fractions
       (vector_query_answers \<lparr>vr_results = None, vr_error = Some ''Index not found''\<rparr>)
       store0 [1, 0, 0, 0] 5 None)
     = Inl (Error ''Index not found'')"
  using vector_paths_throw_service_message
    [where mcp = "upsert_answers \<lparr>ur_ids = None, ur_error = Some ''Dimension mismatch''\<rparr>"
       and this = store0 and vectors = "[[1, 0]]" and documents = "[plain_doc ''test'']"
       and options = None and msg = "''Dimension mismatch''"]
    vector_paths_throw_service_message
    [where mcp = "vector_query_answers \<lparr>vr_results = None, vr_error = Some ''Index not found''\<rparr>"
       and this = store0 and query = "[1, 0, 0, 0]" and k = 5 and flt = None
       and fmt = no_fractions and msg = "''Index not found''"]
  by (simp add: upsert_answers_def vector_query_answers_def silent_def)

text \<open>
  A text-level search whose response carries an error field returns an empty
  result list and throws nothing; an upsert whose response carries an empty error
  string returns the identifiers and throws nothing.
\<close>

theorem error_field_not_always_thrown:
  "returned (similaritySearchWithScore
       (query_answers \<lparr>qr_items = None, qr_query_id = None, qr_rules = None,
                       qr_error = Some ''Index not found''\<rparr>)
       store0 ''authentication'' None None)
     = Inr []
   \<and> returned (addVectors (upsert_answers \<lparr>ur_ids = Some [''v1''], ur_error = Some ''''\<rparr>)
       store0 [[1, 0]] [plain_doc ''test''] None)
     = Inr (Some [''v1''])"
  by (simp add: similaritySearchWithScore_def addVectors_def query_answers_def
      upsert_answers_def silent_def Let_def)

section \<open>Feedback\<close>

text \<open>
  C2, as the code has it. On a freshly constructed store, and whenever the stored
  last-query-id is null or the empty string, feedback returns null and issues no
  remote call; that is so after every text-level search whose response carried no
  query identifier or an empty one, whatever an earlier search had captured.
  After a text-level search whose response carried a non-empty query identifier,
  feedback issues exactly one remote call, whose payload holds that identifier,
  the supplied outcome mapping and the configured feedback-source label, and
  returns the service's acknowledgment unmodified.
\<close>

theorem feedback_needs_captured_query_id:
  "(calls (feedback mcp' (constructor config) outcomes) = []
      \<and> returned (feedback mcp' (constructor config) outcomes) = Inr None)
   \<and> (lastQueryId this = None \<or> lastQueryId this = Some [] \<longrightarrow>
        calls (feedback mcp' this outcomes) = []
        \<and> returned (feedback mcp' this outcomes) = Inr None)
   \<and> (qr_query_id (qortex_query mcp (query_payload this query k flt)) = None
        \<or> qr_query_id (qortex_query mcp (query_payload this query k flt)) = Some [] \<longrightarrow>
        calls (feedback mcp' (store (similaritySearchWithScore mcp this query k flt)) outcomes) = []
        \<and> returned (feedback mcp' (store (similaritySearchWithScore mcp this query k flt)) outcomes)
          = Inr None)
   \<and> (qr_query_id (qortex_query mcp (query_payload this query k flt)) = Some q \<and> q \<noteq> [] \<longrightarrow>
        calls (feedback mcp' (store (similaritySearchWithScore mcp this query k flt)) outcomes)
          = [Call_feedback \<lparr>fa_query_id = q, fa_outcomes = outcomes,
                            fa_source = feedbackSource this\<rparr>]
        \<and> returned (feedback mcp' (store (similaritySearchWithScore mcp this query k flt)) outcomes)
          = Inr (Some (qortex_feedback mcp'
                  \<lparr>fa_query_id = q, fa_outcomes = outcomes, fa_source = feedbackSource this\<rparr>)))"
  by (auto simp add: feedback_def constructor_def similaritySearchWithScore_def Let_def)

text \<open>
  Feedback before any search, after a search whose response has no query
  identifier, and after a search that returned \<^verbatim>\<open>q-abc\<close>.
\<close>

theorem feedback_needs_captured_query_id_witness:
  "lastQueryId store0 = None
   \<and> calls (feedback silent store0 [''i-1'' \<mapsto> ''accepted'']) = []
   \<and> returned (feedback silent store0 [''i-1'' \<mapsto> ''accepted'']) = Inr None
   \<and> calls (feedback silent
        (store (similaritySearchWithScore silent store0 ''auth'' None None))
        [''i-1'' \<mapsto> ''accepted''])
      = []
   \<and> calls (feedback silent
        (store (similaritySearchWithScore (query_answers two_items_one_rule) store0
                  ''auth'' None None))
        [''i-1'' \<mapsto> ''accepted''])
      = [Call_feedback \<lparr>fa_query_id = ''q-abc'', fa_outcomes = [''i-1'' \<mapsto> ''accepted''],
                        fa_source = ''langchain''\<rparr>]
   \<and> returned (feedback silent
        (store (similaritySearchWithScore (query_answers two_items_one_rule) store0
                  ''auth'' None None))
        [''i-1'' \<mapsto> ''accepted''])
      = Inr (Some \<lparr>fr_status = ''recorded'', fr_query_id = ''q-abc'', fr_outcome_count = 0,
                    fr_source = ''langchain''\<rparr>)"
  using feedback_needs_captured_query_id
    [where mcp = "query_answers two_items_one_rule"
       and mcp' = silent and this = store0 and query = "''auth''" and k = None and flt = None
       and q = "''q-abc''" and outcomes = "[''i-1'' \<mapsto> ''accepted'']"
       and config = "\<lparr>cfg_indexName = Some ''test-index'', cfg_domain = Some ''security'',
                      cfg_feedbackSource = None\<rparr>"]
    feedback_needs_captured_query_id
    [where mcp = silent and mcp' = silent and this = store0 and query = "''auth''" and k = None
       and flt = None and outcomes = "[''i-1'' \<mapsto> ''accepted'']"]
  by (simp add: doubles)

text \<open>
  A first text-level search captures \<^verbatim>\<open>q-abc\<close>; a second one gets a response
  without a query identifier; feedback then returns null and issues no call.
\<close>

theorem feedback_after_search_without_query_id:
  "calls (feedback silent
      (store (similaritySearchWithScore
         (query_answers \<lparr>qr_items = Some [], qr_query_id = None, qr_rules = Some [],
                         qr_error = None\<rparr>)
         (store (similaritySearchWithScore (query_answers two_items_one_rule) store0
                   ''authentication'' None None))
         ''authentication'' None None))
      [''i-1'' \<mapsto> ''accepted''])
     = []
   \<and> returned (feedback silent
      (store (similaritySearchWithScore
         (query_answers \<lparr>qr_items = Some [], qr_query_id = None, qr_rules = Some [],
                         qr_error = None\<rparr>)
         (store (similaritySearchWithScore (query_answers two_items_one_rule) store0
                   ''authentication'' None None))
         ''authentication'' None None))
      [''i-1'' \<mapsto> ''accepted''])
     = Inr None"
  by (simp add: feedback_def similaritySearchWithScore_def Let_def doubles)


section \<open>Rules attached by the text-level search\<close>

text \<open>
  C3, as the code has it. A text-level search returns one pair per item of the
  response, in order. For a result whose graph node id appears in the
  source-concepts list of some rule of the response, the metadata key "rules" holds
  exactly the matching rules, each reduced to id, text and relevance, in the order
  the service listed them. For a result with no matching rule the adapter writes
  no "rules" key: the key holds what the item's own metadata holds under "rules",
  so it is absent when the item's metadata has none.
\<close>

theorem text_search_attaches_matching_rules:
  "(let result = qortex_query mcp (query_payload this query k flt);
        items = or_else (qr_items result) [];
        rules = or_else (qr_rules result) []
    in \<exists>pairs. returned (similaritySearchWithScore mcp this query k flt) = Inr pairs
         \<and> length pairs = length items
         \<and> (\<forall>i<length items.
               let matching =
                     filter (\<lambda>r. case r_source_concepts r of None \<Rightarrow> False
                                 | Some concepts \<Rightarrow> qi_node_id (items ! i) \<in> set concepts) rules
               in (matching \<noteq> [] \<longrightarrow>
                     metadata (fst (pairs ! i)) ''rules''
                       = Some (JArr (map (\<lambda>r. JObj [''id'' \<mapsto> JStr (r_id r),
                                                      ''text'' \<mapsto> JStr (r_text r),
                                                      ''relevance'' \<mapsto> JNum (r_relevance r)])
                                      matching)))
                \<and> (matching = [] \<longrightarrow>
                     metadata (fst (pairs ! i)) ''rules'' = qi_metadata (items ! i) ''rules'')))"
proof -
  have mentions: "rule_mentions n = (\<lambda>r. case r_source_concepts r of None \<Rightarrow> False
                                     | Some concepts \<Rightarrow> n \<in> set concepts)" for n
    by (rule ext) simp
  have linked: "linked_rule = (\<lambda>r. JObj [''id'' \<mapsto> JStr (r_id r), ''text'' \<mapsto> JStr (r_text r),
                                        ''relevance'' \<mapsto> JNum (r_relevance r)])"
    by (rule ext) (simp add: linked_rule_def)
  show ?thesis
    unfolding Let_def text_search_returned
    by (rule exI [where x = "map (query_item_to_pair
              (qr_rules (qortex_query mcp (query_payload this query k flt))))
              (or_else (qr_items (qortex_query mcp (query_payload this query k flt))) [])"])
       (simp add: query_item_rules mentions [symmetric] linked [symmetric])
qed

text \<open>
  Two items and one rule that names the first item's node: the first document
  carries the reduced rule, the second has no "rules" key.
\<close>

theorem text_search_attaches_matching_rules_witness:
  "\<exists>pairs. returned (similaritySearchWithScore (query_answers two_items_one_rule) store0
                ''OAuth2 auth'' None None) = Inr pairs
     \<and> length pairs = 2
     \<and> metadata (fst (pairs ! 0)) ''rules''
         = Some (JArr [JObj [''id'' \<mapsto> JStr ''rule:oauth'',
                             ''text'' \<mapsto> JStr ''Use OAuth2 for API access'',
                             ''relevance'' \<mapsto> JNum 0.94]])
     \<and> metadata (fst (pairs ! 1)) ''rules'' = None"
  using text_search_attaches_matching_rules
    [where mcp = "query_answers two_items_one_rule" and this = store0
       and query = "''OAuth2 auth''" and k = None and flt = None]
  apply (simp add: Let_def query_answers_def silent_def two_items_one_rule_def oauth_item_def
      jwt_item_def oauth_rule_def All_less_Suc)
  apply (elim exE conjE)
  subgoal for pairs
    by (rule exI [where x = pairs]) simp
  done

text \<open>
  An item whose own metadata has a "rules" key, in a response without rules: the
  returned document has a "rules" key although no rule matches.
\<close>

theorem rules_key_of_item_metadata_survives:
  "rules_entries (returned (similaritySearchWithScore
       (query_answers
          \<lparr>qr_items = Some [\<lparr>qi_id = ''i-1'', qi_content = ''OAuth2 framework'', qi_score = 0.94,
                             qi_domain = ''security'', qi_node_id = ''sec:oauth'',
                             qi_metadata = [''rules'' \<mapsto> JStr ''house rules'']\<rparr>],
           qr_query_id = Some ''q-abc'', qr_rules = Some [], qr_error = None\<rparr>)
       store0 ''OAuth2 auth'' None None))
     = [Some (JStr ''house rules'')]"
  by (simp add: rules_entries_def similaritySearchWithScore_def query_item_to_pair_def Let_def
      doubles)

section \<open>Inserting vectors\<close>

text \<open>
  C4, as the code has it. When addVectors is given a non-empty list of explicit
  identifiers and the response carries no error, it issues one upsert call whose
  payload forwards exactly those identifiers in the order supplied, and it returns
  the identifier list of the service's response (so exactly the supplied
  identifiers whenever the service confirms them). The payload's metadata array
  has exactly one entry per document, in order; each entry has every key of the
  document's metadata other than "text" with its value, and holds the document's
  content under "text" when the document's metadata has no "text" key of its own.
\<close>

theorem explicit_ids_forwarded_service_ids_returned:
  "options = Some \<lparr>ids = Some given\<rparr> \<and> given \<noteq> []
     \<and> \<not> truthy_string
          (ur_error (qortex_vector_upsert mcp (upsert_payload this vectors documents options)))
   \<longrightarrow>
     calls (addVectors mcp this vectors documents options)
       = [Call_vector_upsert (upsert_payload this vectors documents options)]
     \<and> ua_ids (upsert_payload this vectors documents options) = Some given
     \<and> returned (addVectors mcp this vectors documents options)
       = Inr (ur_ids (qortex_vector_upsert mcp (upsert_payload this vectors documents options)))
     \<and> length (ua_metadata (upsert_payload this vectors documents options)) = length documents
     \<and> (\<forall>i<length documents.
          (\<forall>key. key \<noteq> ''text'' \<longrightarrow>
             (ua_metadata (upsert_payload this vectors documents options) ! i) key
               = metadata (documents ! i) key)
          \<and> (metadata (documents ! i) ''text'' = None \<longrightarrow>
               (ua_metadata (upsert_payload this vectors documents options) ! i) ''text''
                 = Some (JStr (pageContent (documents ! i)))))"
proof (intro impI, elim conjE)
  assume opts: "options = Some \<lparr>ids = Some given\<rparr>" and given: "given \<noteq> []"
    and ok: "\<not> truthy_string
          (ur_error (qortex_vector_upsert mcp (upsert_payload this vectors documents options)))"
  have entries: "\<forall>i<length documents.
          (\<forall>key. key \<noteq> ''text'' \<longrightarrow>
             (ua_metadata (upsert_payload this vectors documents options) ! i) key
               = metadata (documents ! i) key)
          \<and> (metadata (documents ! i) ''text'' = None \<longrightarrow>
               (ua_metadata (upsert_payload this vectors documents options) ! i) ''text''
                 = Some (JStr (pageContent (documents ! i))))"
    by (auto simp add: upsert_metadata_nth map_add_def split: option.splits)
  show "calls (addVectors mcp this vectors documents options)
       = [Call_vector_upsert (upsert_payload this vectors documents options)]
     \<and> ua_ids (upsert_payload this vectors documents options) = Some given
     \<and> returned (addVectors mcp this vectors documents options)
       = Inr (ur_ids (qortex_vector_upsert mcp (upsert_payload this vectors documents options)))
     \<and> length (ua_metadata (upsert_payload this vectors documents options)) = length documents
     \<and> (\<forall>i<length documents.
          (\<forall>key. key \<noteq> ''text'' \<longrightarrow>
             (ua_metadata (upsert_payload this vectors documents options) ! i) key
               = metadata (documents ! i) key)
          \<and> (metadata (documents ! i) ''text'' = None \<longrightarrow>
               (ua_metadata (upsert_payload this vectors documents options) ! i) ''text''
                 = Some (JStr (pageContent (documents ! i)))))"
    using addVectors_calls upsert_ids_given [OF given] addVectors_returns_service_ids [OF ok]
      upsert_metadata_length entries opts
    by simp
qed

text \<open>The unit test "upserts vectors with metadata via MCP".\<close>

theorem explicit_ids_forwarded_service_ids_returned_witness:
  "calls (addVectors (upsert_answers \<lparr>ur_ids = Some [''v1'', ''v2''], ur_error = None\<rparr>) store0
       [[1, 0, 0, 0], [0, 1, 0, 0]]
       [\<lparr>pageContent = ''OAuth2 auth'', metadata = [''source'' \<mapsto> JStr ''docs''], doc_id = None\<rparr>,
        \<lparr>pageContent = ''JWT tokens'', metadata = [''source'' \<mapsto> JStr ''docs''], doc_id = None\<rparr>]
       (Some \<lparr>ids = Some [''v1'', ''v2'']\<rparr>))
     = [Call_vector_upsert
          \<lparr>ua_index_name = ''test-index'', ua_vectors = [[1, 0, 0, 0], [0, 1, 0, 0]],
           ua_metadata = [[''text'' \<mapsto> JStr ''OAuth2 auth'', ''source'' \<mapsto> JStr ''docs''],
                          [''text'' \<mapsto> JStr ''JWT tokens'', ''source'' \<mapsto> JStr ''docs'']],
           ua_ids = Some [''v1'', ''v2'']\<rparr>]
   \<and> returned (addVectors (upsert_answers \<lparr>ur_ids = Some [''v1'', ''v2''], ur_error = None\<rparr>) store0
       [[1, 0, 0, 0], [0, 1, 0, 0]]
       [\<lparr>pageContent = ''OAuth2 auth'', metadata = [''source'' \<mapsto> JStr ''docs''], doc_id = None\<rparr>,
        \<lparr>pageContent = ''JWT tokens'', metadata = [''source'' \<mapsto> JStr ''docs''], doc_id = None\<rparr>]
       (Some \<lparr>ids = Some [''v1'', ''v2'']\<rparr>))
     = Inr (Some [''v1'', ''v2''])"
  using explicit_ids_forwarded_service_ids_returned
    [where mcp = "upsert_answers \<lparr>ur_ids = Some [''v1'', ''v2''], ur_error = None\<rparr>"
       and this = store0 and vectors = "[[1, 0, 0, 0], [0, 1, 0, 0]]"
       and documents =
         "[\<lparr>pageContent = ''OAuth2 auth'', metadata = [''source'' \<mapsto> JStr ''docs''], doc_id = None\<rparr>,
           \<lparr>pageContent = ''JWT tokens'', metadata = [''source'' \<mapsto> JStr ''docs''], doc_id = None\<rparr>]"
       and options = "Some \<lparr>ids = Some [''v1'', ''v2'']\<rparr>" and given = "[''v1'', ''v2'']"]
  by (simp add: upsert_payload_def Let_def doubles)

text \<open>
  Two documents inserted under the identifiers v1 and v2 while the service answers
  with one identifier of its own: that one is returned. And a document whose
  metadata has a "text" key: the payload entry holds it, not the content.
\<close>

theorem returned_ids_are_the_services:
  "returned (addVectors (upsert_answers \<lparr>ur_ids = Some [''auto-1''], ur_error = None\<rparr>) store0
       [[1, 0, 0, 0], [0, 1, 0, 0]] [plain_doc ''OAuth2 auth'', plain_doc ''JWT tokens'']
       (Some \<lparr>ids = Some [''v1'', ''v2'']\<rparr>))
     = Inr (Some [''auto-1''])
   \<and> calls (addVectors silent store0 [[1, 0, 0, 0]]
       [\<lparr>pageContent = ''OAuth2 auth'', metadata = [''text'' \<mapsto> JStr ''stale''], doc_id = None\<rparr>]
       (Some \<lparr>ids = Some [''v1'']\<rparr>))
     = [Call_vector_upsert
          \<lparr>ua_index_name = ''test-index'', ua_vectors = [[1, 0, 0, 0]],
           ua_metadata = [[''text'' \<mapsto> JStr ''stale'']], ua_ids = Some [''v1'']\<rparr>]"
  by (simp add: addVectors_def upsert_payload_def Let_def doubles)

section \<open>Vector similarity search\<close>




section \<open>Inserting without identifiers\<close>

text \<open>
  C6, as the code has it. When the ids option is omitted on addVectors or
  addDocuments, the upsert payload's identifier list is the list of the documents'
  own non-empty identifiers, in document order; the payload has no identifier list
  (undefined, not an empty list) exactly when no document carries a non-empty
  identifier.
\<close>

theorem omitted_ids_fall_back_to_document_ids:
  "options = None \<or> options = Some \<lparr>ids = None\<rparr> \<longrightarrow>
     calls (addVectors mcp this vectors documents options)
       = [Call_vector_upsert (upsert_payload this vectors documents options)]
     \<and> calls (addDocuments embedDocuments mcp this documents options)
       = [Call_vector_upsert
            (upsert_payload this (embedDocuments (map pageContent documents)) documents options)]
     \<and> ua_ids (upsert_payload this vectors documents options)
       = (if \<exists>doc \<in> set documents. truthy_string (doc_id doc)
          then Some (map the (filter truthy_string (map doc_id documents)))
          else None)"
  by (auto simp add: addVectors_def addDocuments_def upsert_payload_def truthy_ids_def Let_def
      filter_empty_conv)

text \<open>
  The unit test "auto-generates ids when not provided", through addVectors and
  through addDocuments: the document has no identifier and the payload has none.
\<close>

theorem omitted_ids_fall_back_to_document_ids_witness:
  "calls (addVectors silent store0 [[1, 0, 0, 0]] [plain_doc ''test''] None)
     = [Call_vector_upsert \<lparr>ua_index_name = ''test-index'', ua_vectors = [[1, 0, 0, 0]],
                             ua_metadata = [[''text'' \<mapsto> JStr ''test'']], ua_ids = None\<rparr>]
   \<and> calls (addDocuments fake_embedDocuments silent store0 [plain_doc ''test'']
        (Some \<lparr>ids = None\<rparr>))
     = [Call_vector_upsert \<lparr>ua_index_name = ''test-index'', ua_vectors = [[0.1, 0.2, 0.3, 0.4]],
                             ua_metadata = [[''text'' \<mapsto> JStr ''test'']], ua_ids = None\<rparr>]"
  using omitted_ids_fall_back_to_document_ids
    [where options = None and mcp = silent and this = store0 and vectors = "[[1, 0, 0, 0]]"
       and documents = "[plain_doc ''test'']" and embedDocuments = fake_embedDocuments]
    omitted_ids_fall_back_to_document_ids
    [where options = "Some \<lparr>ids = None\<rparr>" and mcp = silent and this = store0
       and vectors = "[[0.1, 0.2, 0.3, 0.4]]"
       and documents = "[plain_doc ''test'']" and embedDocuments = fake_embedDocuments]
  by (simp add: upsert_payload_def truthy_ids_def Let_def doubles)

text \<open>
  A document that carries the identifier d1, inserted without the ids option: the
  upsert call receives the identifier list [d1].
\<close>

theorem omitted_ids_still_send_document_ids:
  "calls (addVectors silent store0 [[1, 0, 0, 0]]
       [\<lparr>pageContent = ''test'', metadata = Map.empty, doc_id = Some ''d1''\<rparr>] None)
     = [Call_vector_upsert \<lparr>ua_index_name = ''test-index'', ua_vectors = [[1, 0, 0, 0]],
                             ua_metadata = [[''text'' \<mapsto> JStr ''test'']],
                             ua_ids = Some [''d1'']\<rparr>]"
  by (simp add: addVectors_def upsert_payload_def truthy_ids_def Let_def doubles)

section \<open>Explore\<close>

text \<open>
  C7. Explore issues one call carrying the node identifier. When the service
  reports the node as not existing (the response's node field is null), explore
  returns null; when the response holds a node, explore returns the service's
  response unmodified: node, edges, neighbors and rules as supplied.
\<close>

theorem explore_null_node_or_response:
  "(x_node (qortex_explore mcp (explore_payload nodeId depth)) = Null \<longrightarrow>
      returned (explore mcp this nodeId depth) = Inr None)
   \<and> (x_node (qortex_explore mcp (explore_payload nodeId depth)) = Defined node \<longrightarrow>
      returned (explore mcp this nodeId depth)
        = Inr (Some (qortex_explore mcp (explore_payload nodeId depth))))
   \<and> calls (explore mcp this nodeId depth) = [Call_explore (explore_payload nodeId depth)]
   \<and> ea_node_id (explore_payload nodeId depth) = nodeId"
  by (simp add: explore_def explore_payload_def Let_def)

text \<open>The unit tests "returns null for missing node" and "returns graph neighborhood".\<close>

theorem explore_null_node_or_response_witness:
  "returned (explore (explore_answers \<lparr>x_node = Null, x_edges = None, x_neighbors = None,
                                       x_rules = None\<rparr>) store0 ''nonexistent'' None)
     = Inr None
   \<and> returned (explore (explore_answers oauth_neighborhood) store0 ''sec:oauth'' None)
     = Inr (Some oauth_neighborhood)"
  using explore_null_node_or_response
    [where mcp = "explore_answers \<lparr>x_node = Null, x_edges = None, x_neighbors = None,
                                    x_rules = None\<rparr>"
       and this = store0 and nodeId = "''nonexistent''" and depth = None]
    explore_null_node_or_response
    [where mcp = "explore_answers oauth_neighborhood" and this = store0
       and nodeId = "''sec:oauth''" and depth = None
       and node = "\<lparr>n_id = ''sec:oauth'', n_name = ''OAuth2'',
                      n_description = ''Auth framework'', n_domain = ''security'',
                      n_confidence = 1, n_properties = Map.empty\<rparr>"]
  by (simp add: explore_answers_def silent_def oauth_neighborhood_def)

section \<open>Frame of the instance fields\<close>

text \<open>
  C8. The last-query-identifier is written by text-level search only: a text-level
  search (with or without scores) stores the query identifier of its response,
  null when the response has none, where the getter lastQueryId reads it, and
  leaves the three configuration fields as they were; addVectors, addDocuments,
  vector similarity search, explore, getRules and feedback leave all four fields
  unchanged.
\<close>

theorem lastQueryId_written_only_by_text_search:
  "lastQueryId (store (similaritySearchWithScore mcp this query k flt))
     = qr_query_id (qortex_query mcp (query_payload this query k flt))
   \<and> lastQueryId (store (similaritySearch mcp this query k flt))
     = qr_query_id (qortex_query mcp (query_payload this query k flt))
   \<and> store (similaritySearchWithScore mcp this query k flt)
     = this\<lparr>lastQueryId := qr_query_id (qortex_query mcp (query_payload this query k flt))\<rparr>
   \<and> store (similaritySearch mcp this query k flt)
     = store (similaritySearchWithScore mcp this query k flt)
   \<and> store (addVectors mcp this vectors documents options) = this
   \<and> store (addDocuments embedDocuments mcp this documents options) = this
   \<and> store (similaritySearchVectorWithScore fmt mcp this qv kv flt) = this
   \<and> store (explore mcp this nodeId depth) = this
   \<and> store (getRules mcp this ropts) = this
   \<and> store (feedback mcp this outcomes) = this"
  by (simp add: similaritySearchWithScore_def similaritySearch_def addVectors_def
      addDocuments_def similaritySearchVectorWithScore_def explore_def getRules_def
      feedback_def query_payload_default_k Let_def)

section \<open>A "text" key in a document's own metadata\<close>

text \<open>
  C9. For every document whose own metadata already has a "text" key, the entry
  of the upsert payload's metadata array for that document carries the metadata's
  "text" value: the later spread of the metadata overrides the folded-in content,
  and the entry holds the content text only if the two happen to be equal.
\<close>

theorem metadata_text_overrides_content:
  "i < length documents \<and> metadata (documents ! i) ''text'' = Some v \<longrightarrow>
     calls (addVectors mcp this vectors documents options)
       = [Call_vector_upsert (upsert_payload this vectors documents options)]
     \<and> (ua_metadata (upsert_payload this vectors documents options) ! i) ''text'' = Some v
     \<and> ((ua_metadata (upsert_payload this vectors documents options) ! i) ''text''
           = Some (JStr (pageContent (documents ! i))))
        = (v = JStr (pageContent (documents ! i)))"
  by (simp add: upsert_metadata_nth addVectors_calls)

text \<open>A document with content "OAuth2 auth" and metadata text "stale".\<close>

theorem metadata_text_overrides_content_witness:
  "(ua_metadata (upsert_payload store0 [[1, 0]]
       [\<lparr>pageContent = ''OAuth2 auth'', metadata = [''text'' \<mapsto> JStr ''stale''], doc_id = None\<rparr>]
       None) ! 0) ''text''
     = Some (JStr ''stale'')
   \<and> (ua_metadata (upsert_payload store0 [[1, 0]]
       [\<lparr>pageContent = ''OAuth2 auth'', metadata = [''text'' \<mapsto> JStr ''stale''], doc_id = None\<rparr>]
       None) ! 0) ''text''
     \<noteq> Some (JStr ''OAuth2 auth'')"
  using metadata_text_overrides_content
    [where i = 0 and this = store0 and vectors = "[[1, 0]]" and options = None
       and v = "JStr ''stale''"
       and documents = "[\<lparr>pageContent = ''OAuth2 auth'', metadata = [''text'' \<mapsto> JStr ''stale''],
                           doc_id = None\<rparr>]"]
  by simp

section \<open>A response without a node field\<close>

text \<open>
  C10. Explore returns null exactly when the node field of the response is
  strictly null. When the node field is absent (undefined), explore returns the
  raw response and not null.
\<close>

theorem explore_null_only_for_strict_null:
  "(returned (explore mcp this nodeId depth) = Inr None)
     = (x_node (qortex_explore mcp (explore_payload nodeId depth)) = Null)
   \<and> (x_node (qortex_explore mcp (explore_payload nodeId depth)) = Undefined \<longrightarrow>
      returned (explore mcp this nodeId depth)
        = Inr (Some (qortex_explore mcp (explore_payload nodeId depth))))"
  by (simp add: explore_def Let_def)

text \<open>A response that has no node field at all.\<close>

theorem explore_null_only_for_strict_null_witness:
  "x_node \<lparr>x_node = Undefined, x_edges = None, x_neighbors = None, x_rules = None\<rparr> = Undefined
   \<and> returned (explore (explore_answers \<lparr>x_node = Undefined, x_edges = None, x_neighbors = None,
                                       x_rules = None\<rparr>) store0 ''nonexistent'' None)
     = Inr (Some \<lparr>x_node = Undefined, x_edges = None, x_neighbors = None, x_rules = None\<rparr>)"
  using explore_null_only_for_strict_null
    [where mcp = "explore_answers \<lparr>x_node = Undefined, x_edges = None, x_neighbors = None,
                                    x_rules = None\<rparr>"
       and this = store0 and nodeId = "''nonexistent''" and depth = None]
  by (simp add: explore_answers_def silent_def)

end
